theory Spec2Isabelle
  imports Complex_Main "HOL-Library.Sublist" "HOL-Library.Multiset"
begin

section \<open>JavaScript values\<close>

text \<open>
  A TypeScript \<open>number\<close> is an IEEE double. A finite double is modelled by the
  \<^typ>\<open>real\<close> it denotes, and the datatype \<open>jsnum\<close> adds the infinities and NaN.
  The sign of zero is not represented. The challenge score, the XP earned and the cluster
  progress divide and then subtract or multiply: these operations are rounded to the
  nearest double (\<open>dbl\<close>, \<open>fl\<close>). Counts, identifiers, ranks, XP amounts, hint numbers
  and deductions are whole numbers, on which additions, subtractions and products are exact
  in doubles; they are written with the operations of \<^typ>\<open>real\<close>.
\<close>

datatype jsnum = Num real | PosInfinity | NegInfinity | NaN

text \<open>Rounding to the nearest integer, a tie to the even one.\<close>

definition round_half_even :: "real \<Rightarrow> int" where
  "round_half_even x =
     (let n = \<lfloor>x\<rfloor>
      in if x - of_int n < 1 / 2 then n
         else if 1 / 2 < x - of_int n then n + 1
         else if even n then n else n + 1)"

text \<open>
  The binary exponent of the double nearest to \<open>x\<close>: the \<open>e\<close> with
  \<open>2^e \<le> |x| < 2^(e+1)\<close>, and -1022 in the subnormal range.
\<close>

definition binade :: "real \<Rightarrow> int" where
  "binade x = max (- 1022) \<lfloor>log 2 \<bar>x\<bar>\<rfloor>"

text \<open>
  Rounding of a real to binary64 with an unbounded exponent above: the significand is
  rounded to 53 bits (to a multiple of \<open>2^-1074\<close> in the subnormal range), a tie to the
  even significand.
\<close>

definition dbl :: "real \<Rightarrow> real" where
  "dbl x =
     (if x = 0 then 0
      else of_int (round_half_even (x / 2 powi (binade x - 52))) * 2 powi (binade x - 52))"

text \<open>
  The double that an arithmetic operation with the exact result \<open>x\<close> returns: the
  rounded value, or an infinity when the rounded magnitude reaches \<open>2^1024\<close>.
\<close>

definition fl :: "real \<Rightarrow> jsnum" where
  "fl x =
     (if 2 ^ 1024 \<le> dbl x then PosInfinity
      else if dbl x \<le> - (2 ^ 1024) then NegInfinity
      else Num (dbl x))"

text \<open>\<open>Math.round\<close> rounds to the nearest integer, a half towards plus infinity.\<close>

definition Math_round :: "real \<Rightarrow> real" where
  "Math_round x = of_int \<lfloor>x + 1 / 2\<rfloor>"

definition Math_floor :: "real \<Rightarrow> real" where
  "Math_floor x = of_int \<lfloor>x\<rfloor>"

definition Math_ceil :: "real \<Rightarrow> real" where
  "Math_ceil x = of_int \<lceil>x\<rceil>"

text \<open>
  The operator \<open>/\<close> on finite numbers: the quotient is rounded; a zero divisor gives an
  infinity or NaN.
\<close>

definition js_div :: "real \<Rightarrow> real \<Rightarrow> jsnum" where
  "js_div a b =
     (if b \<noteq> 0 then fl (a / b)
      else if 0 < a then PosInfinity
      else if a < 0 then NegInfinity
      else NaN)"

text \<open>The operators \<open>*\<close> and \<open>/\<close> and \<open>Math.round\<close> on all numbers.\<close>

fun js_times :: "jsnum \<Rightarrow> jsnum \<Rightarrow> jsnum" where
  "js_times (Num a) (Num b) = fl (a * b)"
| "js_times NaN y = NaN"
| "js_times x NaN = NaN"
| "js_times PosInfinity (Num b) =
     (if 0 < b then PosInfinity else if b < 0 then NegInfinity else NaN)"
| "js_times NegInfinity (Num b) =
     (if 0 < b then NegInfinity else if b < 0 then PosInfinity else NaN)"
| "js_times (Num a) PosInfinity =
     (if 0 < a then PosInfinity else if a < 0 then NegInfinity else NaN)"
| "js_times (Num a) NegInfinity =
     (if 0 < a then NegInfinity else if a < 0 then PosInfinity else NaN)"
| "js_times PosInfinity PosInfinity = PosInfinity"
| "js_times PosInfinity NegInfinity = NegInfinity"
| "js_times NegInfinity PosInfinity = NegInfinity"
| "js_times NegInfinity NegInfinity = PosInfinity"

fun js_over :: "jsnum \<Rightarrow> jsnum \<Rightarrow> jsnum" where
  "js_over (Num a) (Num b) = js_div a b"
| "js_over NaN y = NaN"
| "js_over x NaN = NaN"
| "js_over PosInfinity (Num b) = (if b < 0 then NegInfinity else PosInfinity)"
| "js_over NegInfinity (Num b) = (if b < 0 then PosInfinity else NegInfinity)"
| "js_over (Num a) PosInfinity = Num 0"
| "js_over (Num a) NegInfinity = Num 0"
| "js_over PosInfinity PosInfinity = NaN"
| "js_over PosInfinity NegInfinity = NaN"
| "js_over NegInfinity PosInfinity = NaN"
| "js_over NegInfinity NegInfinity = NaN"

fun Math_round_js :: "jsnum \<Rightarrow> jsnum" where
  "Math_round_js (Num x) = Num (Math_round x)"
| "Math_round_js PosInfinity = PosInfinity"
| "Math_round_js NegInfinity = NegInfinity"
| "Math_round_js NaN = NaN"

text \<open>
  The result of a property read \<open>obj[key]\<close> as far as the code below distinguishes it:
  a number, \<open>undefined\<close>, or a member inherited from \<open>Object.prototype\<close>
  (a function or an object, which is truthy and is not a number).
\<close>

datatype jsval = JNumber real | JUndefined | JInherited

fun truthy :: "jsval \<Rightarrow> bool" where
  "truthy (JNumber n) = (n \<noteq> 0)"
| "truthy JUndefined = False"
| "truthy JInherited = True"

text \<open>The property names every object literal inherits from \<open>Object.prototype\<close>.\<close>

definition object_prototype_keys :: "string list" where
  "object_prototype_keys =
     [''constructor'', ''hasOwnProperty'', ''isPrototypeOf'', ''propertyIsEnumerable'',
      ''toLocaleString'', ''toString'', ''valueOf'', ''__proto__'',
      ''__defineGetter__'', ''__defineSetter__'', ''__lookupGetter__'', ''__lookupSetter__'']"

section \<open>Game utilities: performance rating, challenge score, XP earned\<close>

definition getPerformanceRating :: "real \<Rightarrow> bool \<Rightarrow> real \<Rightarrow> string" where
  "getPerformanceRating executionTime usedIndex rowsScanned =
     (if \<not> usedIndex \<and> rowsScanned > 1000 then ''Poor''
      else if executionTime < 0.1 then ''Excellent''
      else if executionTime < 0.5 then ''Good''
      else if executionTime < 2 then ''Fair''
      else ''Poor'')"

text \<open>
  The deduction for slow execution, from \<open>timeRatio = executionTime / optimalTime\<close>:
  \<open>if (timeRatio > 1) score -= Math.min(30, Math.round((timeRatio - 1) * 20))\<close>.
  The difference and the product are rounded. Both are positive here; a product whose
  rounded value reaches \<open>2^1024\<close> is \<open>Infinity\<close>, which \<open>Math.round\<close> keeps, and the
  minimum is then 30 (an overflow of the difference shows in the product as well, see
  \<open>overflow_absorbed\<close>). For the ratio \<open>Infinity\<close> the comparison holds and the minimum
  is 30; for \<open>-Infinity\<close> and \<open>NaN\<close> the comparison is false.
\<close>

fun timeDeduction :: "jsnum \<Rightarrow> real" where
  "timeDeduction (Num timeRatio) =
     (if timeRatio > 1
      then (let product = dbl (dbl (timeRatio - 1) * 20)
            in if 2 ^ 1024 \<le> product then 30 else min 30 (Math_round product))
      else 0)"
| "timeDeduction PosInfinity = 30"
| "timeDeduction NegInfinity = 0"
| "timeDeduction NaN = 0"

definition calculateChallengeScore :: "real \<Rightarrow> real \<Rightarrow> bool \<Rightarrow> bool \<Rightarrow> real \<Rightarrow> real" where
  "calculateChallengeScore executionTime optimalTime usedIndex indexRequired hintsUsed =
     (let score = 100;
          timeRatio = js_div executionTime optimalTime;
          score = score - timeDeduction timeRatio;
          score = (if indexRequired \<and> \<not> usedIndex then score - 20 else score);
          score = score - hintsUsed * 10
      in max 0 score)"

text \<open>
  \<open>baseXp[difficulty]\<close> on the object literal
  \<open>{beginner: 50, intermediate: 100, advanced: 200, expert: 400}\<close>: the own properties
  first, then the prototype chain.
\<close>

definition baseXp :: "string \<Rightarrow> jsval" where
  "baseXp key =
     (if key = ''beginner'' then JNumber 50
      else if key = ''intermediate'' then JNumber 100
      else if key = ''advanced'' then JNumber 200
      else if key = ''expert'' then JNumber 400
      else if key \<in> set object_prototype_keys then JInherited
      else JUndefined)"

text \<open>
  \<open>Math.round((base * (score / 100)) / 5) * 5\<close>, every operation rounded. A base that
  is not a number makes the product, and with it the result, \<open>NaN\<close>.
\<close>

definition calculateXpEarned :: "string \<Rightarrow> real \<Rightarrow> jsnum" where
  "calculateXpEarned difficulty score =
     (let base = (if truthy (baseXp difficulty) then baseXp difficulty else baseXp ''beginner'')
      in case base of
           JNumber b \<Rightarrow>
             js_times
               (Math_round_js (js_over (js_times (Num b) (js_div score 100)) (Num 5)))
               (Num 5)
         | _ \<Rightarrow> NaN)"

section \<open>The game service: submitting a solution\<close>

record SubmissionResult =
  result_score :: real
  result_feedback :: string
  result_xpEarned :: real


section \<open>Type definitions\<close>

text \<open>
  The interfaces \<open>Player\<close>, \<open>Badge\<close>, \<open>Level\<close> and \<open>LevelCluster\<close>. A field
  \<open>f\<close> of an interface is named with the interface as a prefix. An optional field is an
  \<open>option\<close>. The \<open>Challenge\<close> of a level is never inspected by the functions
  below and is the type parameter \<open>'c\<close>.
\<close>

record Badge =
  badge_id :: string
  badge_name :: string
  badge_description :: string
  badge_iconUrl :: string
  badge_earnedDate :: "string option"

record Skills =
  skills_queryMastery :: real
  skills_indexing :: real
  skills_optimization :: real
  skills_security :: real

record Player =
  player_id :: string
  player_username :: string
  player_level :: real
  player_title :: string
  player_xp :: real
  player_xpToNextLevel :: real
  player_avatarUrl :: "string option"
  player_joinedDate :: string
  player_skills :: Skills
  player_badges :: "Badge list"

datatype Difficulty = beginner | intermediate | advanced | expert

record 'c Level =
  level_id :: real
  level_name :: string
  level_description :: string
  level_difficulty :: Difficulty
  level_completed :: bool
  level_unlocked :: bool
  level_score :: "real option"
  level_bestTime :: "real option"
  level_challenge :: 'c

record 'c LevelCluster =
  cluster_id :: real
  cluster_name :: string
  cluster_range :: string
  cluster_description :: string
  cluster_unlocked :: bool
  cluster_progress :: real
  cluster_levels :: "'c Level list"

section \<open>The game state hook\<close>

text \<open>The three pieces of state of \<open>useGameState\<close>; \<open>null\<close> is \<open>None\<close>.\<close>

record 'c GameState =
  player :: "Player option"
  levelClusters :: "'c LevelCluster list"
  currentLevel :: "'c Level option"

definition updatePlayerProgress :: "real \<Rightarrow> 'c GameState \<Rightarrow> 'c GameState" where
  "updatePlayerProgress xpEarned st =
     (case player st of
        None \<Rightarrow> st
      | Some p \<Rightarrow>
          (let newXp = player_xp p + xpEarned;
               xpNeeded = player_xpToNextLevel p
           in if newXp \<ge> xpNeeded
              then (let newLevel = player_level p + 1;
                        remainingXp = newXp - xpNeeded;
                        newXpToNextLevel = Math_round (xpNeeded * 1.5)
                    in st\<lparr> player := Some (p\<lparr> player_level := newLevel,
                                                player_xp := remainingXp,
                                                player_xpToNextLevel := newXpToNextLevel \<rparr>) \<rparr>)
              else st\<lparr> player := Some (p\<lparr> player_xp := newXp \<rparr>) \<rparr>))"

text \<open>\<open>level.score || 0\<close>: an absent score and a score of 0 both give 0.\<close>

definition score_or_zero :: "real option \<Rightarrow> real" where
  "score_or_zero s = (case s of None \<Rightarrow> 0 | Some v \<Rightarrow> (if v \<noteq> 0 then v else 0))"

text \<open>The object written for the level whose id matches.\<close>

definition completeLevel :: "real \<Rightarrow> 'c Level \<Rightarrow> 'c Level" where
  "completeLevel score level =
     level\<lparr> level_completed := True,
            level_score := Some (max score (score_or_zero (level_score level))) \<rparr>"

definition updateLevels :: "real \<Rightarrow> real \<Rightarrow> 'c Level list \<Rightarrow> 'c Level list" where
  "updateLevels levelId score levels =
     map (\<lambda>level. if level_id level = levelId then completeLevel score level else level) levels"

text \<open>
  The new progress of a cluster, computed from its updated levels:
  \<open>completedLevels > 0 ? Math.round((completedLevels / updatedLevels.length) * 100) : 0\<close>.
  The guard is on the number of completed levels, so the division is only reached with a
  list that is not empty. The quotient and the product are rounded; both are at most 100,
  so neither overflows.
\<close>

definition clusterProgress :: "'c Level list \<Rightarrow> real" where
  "clusterProgress updatedLevels =
     (let completedLevels = length (filter level_completed updatedLevels)
      in if completedLevels > 0
         then Math_round (dbl (dbl (real completedLevels / real (length updatedLevels)) * 100))
         else 0)"

definition updateCluster :: "real \<Rightarrow> real \<Rightarrow> 'c LevelCluster \<Rightarrow> 'c LevelCluster" where
  "updateCluster levelId score cluster =
     (let updatedLevels = updateLevels levelId score (cluster_levels cluster);
          progress = clusterProgress updatedLevels
      in cluster\<lparr> cluster_levels := updatedLevels, cluster_progress := progress \<rparr>)"

definition markLevelCompleted :: "real \<Rightarrow> real \<Rightarrow> 'c GameState \<Rightarrow> 'c GameState" where
  "markLevelCompleted levelId score st =
     (let updatedClusters = map (updateCluster levelId score) (levelClusters st);
          st = st\<lparr> levelClusters := updatedClusters \<rparr>
      in case currentLevel st of
           None \<Rightarrow> st
         | Some cur \<Rightarrow>
             (if level_id cur = levelId
              then st\<lparr> currentLevel := Some (completeLevel score cur) \<rparr>
              else st))"

section \<open>The challenge page: submitting\<close>

text \<open>
  What \<open>handleSubmitSolution\<close> does with the result of \<open>submitSolution\<close>: it stores the
  result and navigates to the results page when the score is at least 70. It does not touch
  the game state. The guard \<open>!levelId || !query.trim() || isSubmitting\<close> is the caller's.
\<close>

definition navigatesToResults :: "SubmissionResult \<Rightarrow> bool" where
  "navigatesToResults result = (result_score result \<ge> 70)"

section \<open>The leaderboard page\<close>

record LeaderboardEntry =
  entry_rank :: real
  entry_playerId :: string
  entry_playerName :: string
  entry_level :: real
  entry_xp :: real
  entry_badges :: "string list"
  entry_avatarUrl :: "string option"
  entry_isCurrentPlayer :: "bool option"
  entry_region :: "string option"

datatype LeaderboardType = global | friends | regional

text \<open>An entry literal that gives no \<open>avatarUrl\<close> and no \<open>isCurrentPlayer\<close>.\<close>

definition entry ::
  "real \<Rightarrow> string \<Rightarrow> string \<Rightarrow> real \<Rightarrow> real \<Rightarrow> string list \<Rightarrow> string \<Rightarrow> LeaderboardEntry" where
  "entry r pid pname lvl x bs reg =
     \<lparr> entry_rank = r, entry_playerId = pid, entry_playerName = pname, entry_level = lvl,
       entry_xp = x, entry_badges = bs, entry_avatarUrl = None, entry_isCurrentPlayer = None,
       entry_region = Some reg \<rparr>"

definition mockLeaderboard :: "LeaderboardEntry list" where
  "mockLeaderboard =
     [
      entry 1 ''player1'' ''SuperDBA'' 50 50000
        [''Index-Pro'', ''Query-Master'', ''Security-Expert''] ''North America'',
      entry 2 ''player2'' ''QueryMaster42'' 48 47300
        [''Tuner'', ''Join-Expert''] ''Europe'',
      entry 3 ''player3'' ''DataHero'' 47 46500
        [''Sec-Guru'', ''Performance-Wizard''] ''Asia'',
      entry 4 ''player4'' ''SQLWizard'' 45 45200
        [''Index-Pro'', ''Transaction-Master''] ''South America'',
      entry 5 ''player5'' ''JoinMaster'' 44 44800
        [''Join-Expert'', ''Query-Optimizer''] ''Europe'',
      entry 6 ''player6'' ''SchemaGuru'' 43 43500
        [''Schema-Designer'', ''Normalization-Expert''] ''North America'',
      entry 7 ''player7'' ''IndexNinja'' 42 42100
        [''Index-Pro'', ''Performance-Tuner''] ''Asia'',
      entry 8 ''player8'' ''QueryOptimizer'' 41 41000
        [''Query-Master'', ''Execution-Plan-Expert''] ''Europe'',
      entry 9 ''player9'' ''DBArchitect'' 40 40500
        [''Schema-Designer'', ''High-Availability-Expert''] ''North America'',
      entry 10 ''player10'' ''SQLMaster'' 39 39800
        [''Query-Master'', ''Join-Expert''] ''Asia'',
      entry 11 ''player11'' ''DataEngineer'' 38 38500
        [''ETL-Expert'', ''Performance-Tuner''] ''Europe'',
      entry 12 ''player12'' ''BackupWizard'' 37 37200
        [''Backup-Recovery-Expert'', ''High-Availability-Expert''] ''North America'',
      entry 13 ''player13'' ''TransactionGuru'' 36 36800
        [''Transaction-Master'', ''Concurrency-Expert''] ''Asia'',
      entry 14 ''player14'' ''SecurityMaster'' 35 35500
        [''Security-Expert'', ''Audit-Master''] ''Europe'',
      entry 15 ''player15'' ''PerformanceTuner'' 34 34200
        [''Performance-Wizard'', ''Query-Optimizer''] ''North America'',
      entry 16 ''player16'' ''ReplicationExpert'' 33 33800
        [''Replication-Master'', ''High-Availability-Expert''] ''Asia'',
      entry 17 ''player17'' ''SQLDeveloper'' 32 32500
        [''Stored-Procedure-Expert'', ''Trigger-Master''] ''Europe'',
      entry 18 ''player18'' ''DataModeler'' 31 31200
        [''Schema-Designer'', ''Normalization-Expert''] ''North America'',
      entry 19 ''player19'' ''CloudDBExpert'' 30 30800
        [''Cloud-Migration-Expert'', ''Scaling-Master''] ''Asia'',
      entry 20 ''player20'' ''SQLAnalyst'' 29 29500
        [''Analytics-Expert'', ''Data-Warehouse-Master''] ''Europe''
     ]"

text \<open>
  \<open>toLowerCase\<close> and \<open>includes\<close> on strings of ASCII characters: the letters
  \<open>A\<close> to \<open>Z\<close> are mapped to \<open>a\<close> to \<open>z\<close>; \<open>s.includes(t)\<close> holds when
  \<open>t\<close> occurs in \<open>s\<close> as a contiguous substring.
\<close>

definition toLowerCase_char :: "char \<Rightarrow> char" where
  "toLowerCase_char c =
     (case map_of (zip ''ABCDEFGHIJKLMNOPQRSTUVWXYZ'' ''abcdefghijklmnopqrstuvwxyz'') c of
        Some l \<Rightarrow> l
      | None \<Rightarrow> c)"

definition toLowerCase :: "string \<Rightarrow> string" where
  "toLowerCase s = map toLowerCase_char s"

fun string_includes :: "string \<Rightarrow> string \<Rightarrow> bool" where
  "string_includes [] t = (t = [])"
| "string_includes (c # cs) t = (prefix t (c # cs) \<or> string_includes cs t)"

text \<open>\<open>a || b\<close> on strings and on numbers: the empty string and 0 are falsy.\<close>

definition string_or :: "string option \<Rightarrow> string \<Rightarrow> string" where
  "string_or a b = (case a of None \<Rightarrow> b | Some s \<Rightarrow> (if s \<noteq> [] then s else b))"

definition number_or :: "real option \<Rightarrow> real \<Rightarrow> real" where
  "number_or a b = (case a of None \<Rightarrow> b | Some n \<Rightarrow> (if n \<noteq> 0 then n else b))"

definition currentPlayerEntry :: "Player \<Rightarrow> real \<Rightarrow> LeaderboardEntry" where
  "currentPlayerEntry p random =
     (let currentPlayerRank = Math_floor (random * 100) + 21
      in \<lparr> entry_rank = currentPlayerRank, entry_playerId = player_id p,
           entry_playerName = player_username p, entry_level = player_level p,
           entry_xp = player_xp p, entry_badges = map badge_name (player_badges p),
           entry_avatarUrl = None, entry_isCurrentPlayer = Some True,
           entry_region = Some ''Europe'' \<rparr>)"

definition friendsLeaderboard :: "Player option \<Rightarrow> LeaderboardEntry list" where
  "friendsLeaderboard pl =
     [ entry 1 ''friend1'' ''BestSQLBuddy'' 42 42000 [''Query-Master'', ''Join-Expert''] ''Europe'',
       entry 2 ''friend2'' ''CodeFriend'' 38 38500 [''Index-Pro''] ''North America'',
       entry 3 ''friend3'' ''DevBuddy'' 35 35200 [''Performance-Tuner''] ''Asia'',
       \<lparr> entry_rank = 4,
         entry_playerId = string_or (map_option player_id pl) ''currentPlayer'',
         entry_playerName = string_or (map_option player_username pl) ''You'',
         entry_level = number_or (map_option player_level pl) 30,
         entry_xp = number_or (map_option player_xp pl) 30000,
         entry_badges = (case pl of None \<Rightarrow> [] | Some p \<Rightarrow> map badge_name (player_badges p)),
         entry_avatarUrl = None, entry_isCurrentPlayer = Some True,
         entry_region = Some ''Europe'' \<rparr>,
       entry 5 ''friend4'' ''SQLPal'' 28 28500 [''Security-Expert''] ''South America'' ]"

text \<open>
  The body of \<open>loadLeaderboardData\<close> from the point where the list of entries is built.
  The list \<open>mock\<close> stands for the local \<open>mockLeaderboard\<close>, \<open>random\<close> for the value
  of \<open>Math.random()\<close>; the result is the data set with \<open>setLeaderboardData\<close> and the
  number set with \<open>setTotalPages\<close>. \<open>Array.prototype.sort\<close> is stable.
\<close>

definition rankedLeaderboard ::
  "LeaderboardEntry list \<Rightarrow> Player option \<Rightarrow> real \<Rightarrow> LeaderboardType \<Rightarrow> string \<Rightarrow> string
     \<Rightarrow> LeaderboardEntry list \<times> real" where
  "rankedLeaderboard mock pl random leaderboardType region searchQuery =
     (let mock = (case pl of
                    None \<Rightarrow> mock
                  | Some p \<Rightarrow>
                      (if leaderboardType = global then mock @ [currentPlayerEntry p random]
                       else mock));
          filteredData = mock;
          filteredData = (if region \<noteq> ''all'' \<and> leaderboardType = global
                          then filter (\<lambda>e. entry_region e = Some region) filteredData
                          else filteredData);
          filteredData = (if searchQuery \<noteq> []
                          then filter (\<lambda>e. string_includes (toLowerCase (entry_playerName e))
                                                  (toLowerCase searchQuery)) filteredData
                          else filteredData);
          filteredData = sort_key entry_rank filteredData;
          filteredData = (if leaderboardType = friends then friendsLeaderboard pl
                          else filteredData);
          filteredData = (if leaderboardType = regional
                          then filter (\<lambda>e. entry_region e = Some ''Europe'') mock
                          else filteredData)
      in (filteredData, Math_ceil (real (length filteredData) / 10)))"

definition loadLeaderboardData ::
  "Player option \<Rightarrow> real \<Rightarrow> LeaderboardType \<Rightarrow> string \<Rightarrow> string
     \<Rightarrow> LeaderboardEntry list \<times> real" where
  "loadLeaderboardData = rankedLeaderboard mockLeaderboard"

section \<open>Concrete data\<close>

text \<open>The \<open>mockPlayer\<close> of the game service.\<close>

definition mockPlayer :: Player where
  "mockPlayer =
     \<lparr> player_id = ''player1'', player_username = ''SQLMaster'', player_level = 5,
       player_title = ''Junior DBA'', player_xp = 450, player_xpToNextLevel = 550,
       player_avatarUrl = Some ''/avatars/default.png'', player_joinedDate = ''2023-01-15'',
       player_skills = \<lparr> skills_queryMastery = 65, skills_indexing = 40,
                          skills_optimization = 55, skills_security = 30 \<rparr>,
       player_badges =
         [ \<lparr> badge_id = ''badge1'', badge_name = ''First Query'',
             badge_description = ''Executed your first SQL query'',
             badge_iconUrl = ''/badges/first-query.png'',
             badge_earnedDate = Some ''2023-01-16'' \<rparr>,
           \<lparr> badge_id = ''badge2'', badge_name = ''Index Master'',
             badge_description = ''Created an index that improved query performance by 50%'',
             badge_iconUrl = ''/badges/index-master.png'',
             badge_earnedDate = Some ''2023-02-10'' \<rparr> ] \<rparr>"

text \<open>The player of the level-up example: level 1 with 900 of 1000 XP.\<close>

definition examplePlayer :: Player where
  "examplePlayer =
     mockPlayer\<lparr> player_level := 1, player_xp := 900, player_xpToNextLevel := 1000 \<rparr>"

text \<open>A small career: one cluster of two levels, the first completed, the second current.\<close>

definition exampleLevel :: "real \<Rightarrow> bool \<Rightarrow> real option \<Rightarrow> unit Level" where
  "exampleLevel i c s =
     \<lparr> level_id = i, level_name = ''SELECT Statements'',
       level_description = ''Learn how to retrieve data using SELECT'',
       level_difficulty = beginner, level_completed = c, level_unlocked = True,
       level_score = s, level_bestTime = None, level_challenge = () \<rparr>"

definition exampleCluster :: "unit LevelCluster" where
  "exampleCluster =
     \<lparr> cluster_id = 1, cluster_name = ''SQL Basics'', cluster_range = ''1-5'',
       cluster_description = ''Learn the fundamentals of SQL queries'',
       cluster_unlocked = True, cluster_progress = 50,
       cluster_levels = [exampleLevel 1 True (Some 95), exampleLevel 2 False None] \<rparr>"

definition exampleState :: "unit GameState" where
  "exampleState =
     \<lparr> player = Some mockPlayer, levelClusters = [exampleCluster],
       currentLevel = Some (exampleLevel 2 False None) \<rparr>"

text \<open>The literal of the \<open>difficulty\<close> union type that each tier stands for.\<close>

fun difficulty_string :: "Difficulty \<Rightarrow> string" where
  "difficulty_string beginner = ''beginner''"
| "difficulty_string intermediate = ''intermediate''"
| "difficulty_string advanced = ''advanced''"
| "difficulty_string expert = ''expert''"

section \<open>Rounding to a double\<close>

lemma round_half_even_of_int: "round_half_even (of_int m) = m"
  by (simp add: round_half_even_def)

lemma round_half_even_cases:
  "round_half_even x = \<lfloor>x\<rfloor> \<or> round_half_even x = \<lfloor>x\<rfloor> + 1"
  by (simp add: round_half_even_def Let_def)

lemma round_half_even_ge: 
  assumes "of_int m \<le> x" shows "m \<le> round_half_even x"
proof -
  have "m \<le> \<lfloor>x\<rfloor>" using assms by (simp add: le_floor_iff)
  then show ?thesis using round_half_even_cases [of x] by linarith
qed

lemma round_half_even_le: 
  assumes "x \<le> of_int m" shows "round_half_even x \<le> m"
proof (cases "x = of_int m")
  case True
  then show ?thesis by (simp add: round_half_even_of_int)
next
  case False
  with assms have "x < of_int m" by simp
  then have "\<lfloor>x\<rfloor> < m" by (simp add: floor_less_iff)
  then show ?thesis using round_half_even_cases [of x] by linarith
qed

lemma two_powi_pos: "0 < (2::real) powi k"
  by (simp add: zero_less_power_int)

lemma binade_eqI:
  assumes "2 powi k \<le> \<bar>x\<bar>" and "\<bar>x\<bar> < 2 powi (k + 1)" and "- 1022 \<le> k"
  shows "binade x = k"
proof -
  have pos: "0 < \<bar>x\<bar>" using assms(1) two_powi_pos [of k] by linarith
  have p: "(2::real) powr of_int j = 2 powi j" for j
    by (rule powr_real_of_int') simp_all
  have a: "(2::real) powr of_int k = 2 powi k" by (rule p)
  have b: "(2::real) powr (of_int k + 1) = 2 powi (k + 1)" using p [of "k + 1"] by simp
  have "\<lfloor>log 2 \<bar>x\<bar>\<rfloor> = k"
    using assms(1,2) pos by (simp add: floor_log_eq_powr_iff a b)
  with assms(3) show ?thesis by (simp add: binade_def)
qed

lemma dbl_eval:
  assumes "2 powi k \<le> \<bar>x\<bar>" and "\<bar>x\<bar> < 2 powi (k + 1)" and "- 1022 \<le> k"
  shows "dbl x = of_int (round_half_even (x / 2 powi (k - 52))) * 2 powi (k - 52)"
proof -
  have "0 < \<bar>x\<bar>" using assms(1) two_powi_pos [of k] by linarith
  then have "x \<noteq> 0" by simp
  then show ?thesis by (simp add: dbl_def binade_eqI [OF assms])
qed


lemma two_powi_mono: "j \<le> k \<Longrightarrow> (2::real) powi j \<le> 2 powi k"
  by (rule power_int_increasing) simp_all

lemma ulp_scale: "(2::real) powi (b - 52) * 2 powi j = 2 powi (b - 52 + j)"
  by (simp add: power_int_add)

lemma floor_log2_bounds:
  assumes "x \<noteq> 0"
  shows "2 powi \<lfloor>log 2 \<bar>x\<bar>\<rfloor> \<le> \<bar>x\<bar>" and "\<bar>x\<bar> < 2 powi (\<lfloor>log 2 \<bar>x\<bar>\<rfloor> + 1)"
proof -
  have p: "(2::real) powr of_int j = 2 powi j" for j
    by (rule powr_real_of_int') simp_all
  have "0 < \<bar>x\<bar>" using assms by simp
  then have "2 powr of_int \<lfloor>log 2 \<bar>x\<bar>\<rfloor> \<le> \<bar>x\<bar> \<and> \<bar>x\<bar> < 2 powr (of_int \<lfloor>log 2 \<bar>x\<bar>\<rfloor> + 1)"
    using floor_log_eq_powr_iff [of "\<bar>x\<bar>" 2 "\<lfloor>log 2 \<bar>x\<bar>\<rfloor>"] by simp
  then show "2 powi \<lfloor>log 2 \<bar>x\<bar>\<rfloor> \<le> \<bar>x\<bar>" and "\<bar>x\<bar> < 2 powi (\<lfloor>log 2 \<bar>x\<bar>\<rfloor> + 1)"
    using p [of "\<lfloor>log 2 \<bar>x\<bar>\<rfloor>"] p [of "\<lfloor>log 2 \<bar>x\<bar>\<rfloor> + 1"] by simp_all
qed

lemma floor_log2_ge:
  assumes "2 powi k \<le> \<bar>x\<bar>"
  shows "k \<le> \<lfloor>log 2 \<bar>x\<bar>\<rfloor>"
proof (rule ccontr)
  assume "\<not> k \<le> \<lfloor>log 2 \<bar>x\<bar>\<rfloor>"
  then have "\<lfloor>log 2 \<bar>x\<bar>\<rfloor> + 1 \<le> k" by simp
  then have "(2::real) powi (\<lfloor>log 2 \<bar>x\<bar>\<rfloor> + 1) \<le> 2 powi k" by (rule two_powi_mono)
  moreover have "0 < \<bar>x\<bar>" using assms two_powi_pos [of k] by linarith
  then have "x \<noteq> 0" by simp
  ultimately show False using floor_log2_bounds(2) [of x] assms by simp
qed

lemma floor_log2_le:
  assumes "x \<noteq> 0" and "\<bar>x\<bar> \<le> 2 powi k"
  shows "\<lfloor>log 2 \<bar>x\<bar>\<rfloor> \<le> k"
proof (rule ccontr)
  assume "\<not> \<lfloor>log 2 \<bar>x\<bar>\<rfloor> \<le> k"
  then have "k + 1 \<le> \<lfloor>log 2 \<bar>x\<bar>\<rfloor>" by simp
  then have "(2::real) powi (k + 1) \<le> 2 powi \<lfloor>log 2 \<bar>x\<bar>\<rfloor>" by (rule two_powi_mono)
  then have "(2::real) powi (k + 1) \<le> \<bar>x\<bar>" using floor_log2_bounds(1) [OF assms(1)] by simp
  moreover have "(2::real) powi k < 2 powi (k + 1)"
    by (rule power_int_strict_increasing) simp_all
  ultimately show False using assms(2) by simp
qed

lemma binade_ge: "- 1022 \<le> binade x"
  by (simp add: binade_def)

lemma dbl_nonneg:
  assumes "0 \<le> x" shows "0 \<le> dbl x"
proof -
  have "0 \<le> x / 2 powi (binade x - 52)" using assms two_powi_pos by simp
  then have "0 \<le> round_half_even (x / 2 powi (binade x - 52))"
    using round_half_even_ge [of 0] by simp
  then show ?thesis using two_powi_pos by (simp add: dbl_def)
qed

lemma dbl_ge_pow2:
  assumes "2 powi k \<le> x" and "- 1022 \<le> k"
  shows "2 powi k \<le> dbl x"
proof -
  have xpos: "0 < x" using assms(1) two_powi_pos [of k] by linarith
  then have ax: "\<bar>x\<bar> = x" by simp
  define f where "f = \<lfloor>log 2 \<bar>x\<bar>\<rfloor>"
  have kf: "k \<le> f" unfolding f_def using floor_log2_ge [of k x] assms(1) xpos by simp
  then have b: "binade x = f" using assms(2) by (simp add: binade_def f_def)
  have lo: "2 powi f \<le> x" using floor_log2_bounds(1) [of x] xpos by (simp add: f_def)
  let ?u = "(2::real) powi (f - 52)"
  have u: "0 < ?u" by (rule two_powi_pos)
  have sc: "?u * 2 ^ 52 = 2 powi f" using ulp_scale [of f 52] by simp
  have "of_int (2 ^ 52) * ?u \<le> x" using lo sc by (simp add: mult.commute)
  then have "of_int (2 ^ 52) \<le> x / ?u" using u by (simp add: le_divide_eq)
  then have "2 ^ 52 \<le> round_half_even (x / ?u)" by (rule round_half_even_ge)
  then have "of_int (2 ^ 52) \<le> (of_int (round_half_even (x / ?u)) :: real)"
    by (simp only: of_int_le_iff)
  then have m: "of_int (2 ^ 52) * ?u \<le> of_int (round_half_even (x / ?u)) * ?u"
    using u by (simp only: mult_le_cancel_right_pos)
  have d: "dbl x = of_int (round_half_even (x / ?u)) * ?u"
    using xpos by (simp add: dbl_def b)
  have "(2::real) powi k \<le> 2 powi f" using kf by (rule two_powi_mono)
  also have "\<dots> = of_int (2 ^ 52) * ?u" using sc by (simp add: mult.commute)
  also have "\<dots> \<le> of_int (round_half_even (x / ?u)) * ?u" by (rule m)
  finally show ?thesis unfolding d .
qed

lemma dbl_le_pow2:
  assumes "0 \<le> x" and "x \<le> 2 powi k" and "- 1022 \<le> k"
  shows "dbl x \<le> 2 powi k"
proof (cases "x = 0")
  case True
  then show ?thesis using two_powi_pos [of k] by (simp add: dbl_def)
next
  case False
  then have xpos: "0 < x" using assms(1) by simp
  then have ax: "\<bar>x\<bar> = x" by simp
  define b where "b = binade x"
  have "\<lfloor>log 2 \<bar>x\<bar>\<rfloor> \<le> k" using floor_log2_le [of x k] False assms(2) xpos by simp
  then have bk: "b \<le> k" using assms(3) by (simp add: b_def binade_def)
  let ?u = "(2::real) powi (b - 52)"
  have u: "0 < ?u" by (rule two_powi_pos)
  define j where "j = nat (k - b + 52)"
  have j: "int j = k - b + 52" using bk by (simp add: j_def)
  have "?u * 2 powi int j = 2 powi (b - 52 + int j)" by (rule ulp_scale)
  moreover have "b - 52 + int j = k" using j by simp
  ultimately have sc: "?u * 2 ^ j = 2 powi k" by (metis power_int_of_nat)
  have "x \<le> of_int (2 ^ j) * ?u" using assms(2) sc by (simp add: mult.commute)
  then have "x / ?u \<le> of_int (2 ^ j)" using u by (simp add: divide_le_eq)
  then have "round_half_even (x / ?u) \<le> 2 ^ j" by (rule round_half_even_le)
  then have "(of_int (round_half_even (x / ?u)) :: real) \<le> of_int (2 ^ j)"
    by (simp only: of_int_le_iff)
  then have m: "of_int (round_half_even (x / ?u)) * ?u \<le> of_int (2 ^ j) * ?u"
    using u by (simp only: mult_le_cancel_right_pos)
  have d: "dbl x = of_int (round_half_even (x / ?u)) * ?u"
    using False by (simp add: dbl_def b_def)
  have "of_int (round_half_even (x / ?u)) * ?u \<le> of_int (2 ^ j) * ?u" by (rule m)
  also have "\<dots> = 2 powi k" using sc by (simp add: mult.commute)
  finally show ?thesis unfolding d .
qed

lemma dbl_of_int:
  assumes "\<bar>n\<bar> < 2 ^ 53"
  shows "dbl (of_int n) = of_int n"
proof (cases "n = 0")
  case True
  then show ?thesis by (simp add: dbl_def)
next
  case False
  let ?x = "of_int n :: real"
  define f where "f = \<lfloor>log 2 \<bar>?x\<bar>\<rfloor>"
  have x0: "?x \<noteq> 0" using False by simp
  have "(2::real) powi 0 \<le> \<bar>?x\<bar>" using False by (simp add: flip: of_int_abs)
  then have f0: "0 \<le> f" unfolding f_def by (rule floor_log2_ge)
  have "\<bar>?x\<bar> < 2 ^ 53" using assms by (metis of_int_abs of_int_less_iff of_int_numeral of_int_power)
  then have "\<bar>?x\<bar> \<le> 2 powi 53" by simp
  then have f53: "f \<le> 53" unfolding f_def using floor_log2_le [of ?x 53] x0 by simp
  have "f \<noteq> 53"
  proof
    assume "f = 53"
    then have "2 powi 53 \<le> \<bar>?x\<bar>" using floor_log2_bounds(1) [OF x0] by (simp add: f_def)
    with \<open>\<bar>?x\<bar> < 2 ^ 53\<close> show False by simp
  qed
  with f53 have f52: "f \<le> 52" by simp
  have b: "binade ?x = f" using f0 by (simp add: binade_def f_def)
  define j where "j = nat (52 - f)"
  have j: "int j = 52 - f" using f52 by (simp add: j_def)
  let ?u = "(2::real) powi (f - 52)"
  have u: "0 < ?u" by (rule two_powi_pos)
  have "?u * 2 powi int j = 2 powi (f - 52 + int j)" by (rule ulp_scale)
  moreover have "f - 52 + int j = 0" using j by simp
  ultimately have "?u * 2 ^ j = 2 powi 0" by (metis power_int_of_nat)
  then have sc: "?u * 2 ^ j = 1" by simp
  then have "?x / ?u = ?x * 2 ^ j" using u by (simp add: field_simps)
  also have "\<dots> = of_int (n * 2 ^ j)" by simp
  finally have "round_half_even (?x / ?u) = n * 2 ^ j" by (simp only: round_half_even_of_int)
  then have "dbl ?x = of_int (n * 2 ^ j) * ?u" using x0 by (simp add: dbl_def b)
  also have "\<dots> = ?x * (?u * 2 ^ j)" by simp
  finally show ?thesis using sc by simp
qed

lemma dbl_zero: "dbl 0 = 0"
  by (simp add: dbl_def)

lemma fl_bounded:
  assumes "0 \<le> x" and "x \<le> 2 powi k" and "- 1022 \<le> k" and "k \<le> 1023"
  shows "fl x = Num (dbl x)" and "0 \<le> dbl x" and "dbl x \<le> 2 powi k"
proof -
  show lo: "0 \<le> dbl x" using assms(1) by (rule dbl_nonneg)
  show hi: "dbl x \<le> 2 powi k" using assms(1,2,3) by (rule dbl_le_pow2)
  have "(2::real) powi k \<le> 2 powi 1023" using assms(4) by (rule two_powi_mono)
  moreover have "(2::real) powi 1023 < 2 ^ 1024" by simp
  ultimately have "dbl x < 2 ^ 1024" using hi by linarith
  moreover have "(0::real) < 2 ^ 1024" by simp
  then have "- (2 ^ 1024) < dbl x" using lo by linarith
  ultimately show "fl x = Num (dbl x)" by (simp add: fl_def)
qed

lemma dbl_ge_32:
  assumes "32 \<le> x" shows "32 \<le> dbl x"
  using dbl_ge_pow2 [of 5 x] assms by simp

lemma overflow_absorbed:
  assumes "2 ^ 1024 \<le> dbl x" shows "2 ^ 1024 \<le> dbl (dbl x * 20)"
proof -
  have "(2::real) powi 1024 \<le> dbl x * 20" using assms by simp
  then have "(2::real) powi 1024 \<le> dbl (dbl x * 20)" by (rule dbl_ge_pow2) simp
  then show ?thesis by simp
qed

lemma Math_round_nonneg: "0 \<le> x \<Longrightarrow> 0 \<le> Math_round x"
  by (simp add: Math_round_def)

lemma Math_round_ge_30: "30 \<le> x \<Longrightarrow> 30 \<le> Math_round x"
proof -
  assume "30 \<le> x"
  then have "30 \<le> \<lfloor>x + 1 / 2\<rfloor>" by (simp add: le_floor_iff)
  then have "(of_int 30 :: real) \<le> of_int \<lfloor>x + 1 / 2\<rfloor>" by (simp only: of_int_le_iff)
  then show ?thesis by (simp add: Math_round_def)
qed

section \<open>The time deduction\<close>

lemma timeDeduction_Num:
  "timeDeduction (Num r)
     = (if r > 1 then min 30 (Math_round (dbl (dbl (r - 1) * 20))) else 0)"
proof -
  have "min 30 (Math_round p) = 30" if "2 ^ 1024 \<le> p" for p :: real
  proof -
    have "(30::real) \<le> 2 ^ 1024" by simp
    with that have "30 \<le> p" by linarith
    then have "30 \<le> Math_round p" by (rule Math_round_ge_30)
    then show ?thesis by simp
  qed
  then show ?thesis by (simp add: Let_def timeDeduction.simps(1))
qed

declare timeDeduction.simps(1) [simp del]

lemma timeDeduction_nonneg: "0 \<le> timeDeduction r"
proof (cases r)
  case (Num x)
  have "0 \<le> dbl (dbl (x - 1) * 20)" if "1 < x"
  proof -
    have "0 \<le> dbl (x - 1)" using that by (simp add: dbl_nonneg)
    then show ?thesis by (simp add: dbl_nonneg)
  qed
  then show ?thesis using Num by (simp add: timeDeduction_Num Math_round_nonneg)
qed simp_all


lemma timeDeduction_js_div:
  assumes "b \<noteq> 0"
  shows "timeDeduction (js_div a b)
     = (if dbl (a / b) > 1 then min 30 (Math_round (dbl (dbl (dbl (a / b) - 1) * 20))) else 0)"
proof -
  let ?r = "dbl (a / b)"
  consider (over) "2 ^ 1024 \<le> ?r" | (under) "?r \<le> - (2 ^ 1024)"
    | (finite) "\<not> 2 ^ 1024 \<le> ?r" "\<not> ?r \<le> - (2 ^ 1024)"
    by blast
  then show ?thesis
  proof cases
    case over
    have "(33::real) \<le> 2 ^ 1024" by simp
    with over have r: "33 \<le> ?r" by linarith
    then have "32 \<le> dbl (?r - 1)" by (simp add: dbl_ge_32)
    then have "32 \<le> dbl (dbl (?r - 1) * 20)" by (simp add: dbl_ge_32)
    then have "30 \<le> Math_round (dbl (dbl (?r - 1) * 20))" by (simp add: Math_round_ge_30)
    then show ?thesis using over r assms by (simp add: js_div_def fl_def)
  next
    case under
    have "- (2 ^ 1024) \<le> (1::real)" by simp
    with under have "\<not> 1 < ?r" by linarith
    moreover have "(0::real) < 2 ^ 1024" by simp
    then have "\<not> 2 ^ 1024 \<le> ?r" using under by linarith
    ultimately show ?thesis using under assms by (simp add: js_div_def fl_def)
  next
    case finite
    then show ?thesis using assms by (simp add: js_div_def fl_def timeDeduction_Num)
  qed
qed

lemmas dbl_binades =
  dbl_eval [where k = "- 6"] dbl_eval [where k = "- 2"] dbl_eval [where k = "- 1"]
  dbl_eval [where k = 0] dbl_eval [where k = 2] dbl_eval [where k = 3]
  dbl_eval [where k = 4] dbl_eval [where k = 5] dbl_eval [where k = 6]

section \<open>The challenge score\<close>

text \<open>
  Claim C3 gives the time deduction as \<open>min(30, round((executionTime/optimalTime - 1) * 20))\<close>.
  The function computes the quotient, the difference and the product in doubles: for
  41 s against an optimum of 40 s the product is 0.4999999999999982 and not 0.5, so
  nothing is deducted and the score is 100, where the formula of the claim gives 99.
\<close>

theorem calculateChallengeScore_rounds_ratio:
  "(41 / 40 :: real) > 1
   \<and> calculateChallengeScore 41 40 True True 0 = 100
   \<and> (max 0 (min 100 (100 - min 30 (Math_round ((41 / 40 - 1) * 20)) - 0 - 0 * 10)) :: real) = 99"
proof -
  have "timeDeduction (js_div 41 40) = 0"
    by (simp add: timeDeduction_js_div dbl_binades round_half_even_def Math_round_def)
  then show ?thesis
    by (simp add: calculateChallengeScore_def Let_def Math_round_def)
qed

text \<open>
  Claim C3, amended. With a non-zero optimal time and a non-negative number of hints, the
  score starts at 100 and loses \<open>min(30, round(t))\<close> when the rounded ratio exceeds 1,
  where \<open>t\<close> is \<open>(executionTime/optimalTime - 1) * 20\<close> with the quotient, the
  difference and the product each rounded to the nearest double; it loses 20 when an index
  was required and not used, and 10 per hint; the result is clamped to the interval from 0
  to 100. The scenario of the claim (the doubles written 1.2 and 0.8, index required and
  not used, one hint) is the witness and scores 60.
\<close>

theorem calculateChallengeScore_double_formula:
  assumes "optimalTime \<noteq> 0" and "0 \<le> hintsUsed"
  shows "calculateChallengeScore executionTime optimalTime usedIndex indexRequired hintsUsed =
     max 0 (min 100 (100
       - (if dbl (executionTime / optimalTime) > 1
          then min 30 (Math_round (dbl (dbl (dbl (executionTime / optimalTime) - 1) * 20)))
          else 0)
       - (if indexRequired \<and> \<not> usedIndex then 20 else 0)
       - hintsUsed * 10))"
proof -
  let ?t = "timeDeduction (js_div executionTime optimalTime)"
  have t: "?t = (if dbl (executionTime / optimalTime) > 1
          then min 30 (Math_round (dbl (dbl (dbl (executionTime / optimalTime) - 1) * 20)))
          else 0)"
    using assms(1) by (rule timeDeduction_js_div)
  have "0 \<le> ?t" by (rule timeDeduction_nonneg)
  then have "100 - ?t - (if indexRequired \<and> \<not> usedIndex then 20 else 0) - hintsUsed * 10 \<le> 100"
    using assms(2) by simp
  then show ?thesis
    unfolding t [symmetric] by (simp add: calculateChallengeScore_def Let_def)
qed

theorem calculateChallengeScore_double_formula_witness:
  "dbl 0.8 \<noteq> 0 \<and> (0::real) \<le> 1
   \<and> calculateChallengeScore (dbl 1.2) (dbl 0.8) False True 1 = 60"
proof -
  have nz: "dbl 0.8 \<noteq> 0"
    by (simp add: dbl_eval [where k = "- 1"] round_half_even_def)
  show ?thesis
    using calculateChallengeScore_double_formula [of "dbl 0.8" 1 "dbl 1.2" False True] nz
    by (simp add: dbl_binades round_half_even_def Math_round_def)
qed

text \<open>
  Claim C6. For a non-negative execution time, a positive optimal time and a non-negative
  number of hints, the score lies between 0 and 100.
\<close>

theorem calculateChallengeScore_range:
  assumes "0 \<le> executionTime" and "0 < optimalTime" and "0 \<le> hintsUsed"
  shows "0 \<le> calculateChallengeScore executionTime optimalTime usedIndex indexRequired hintsUsed
       \<and> calculateChallengeScore executionTime optimalTime usedIndex indexRequired hintsUsed \<le> 100"
proof -
  have "0 \<le> timeDeduction (js_div executionTime optimalTime)" by (rule timeDeduction_nonneg)
  then show ?thesis
    using assms(3) by (simp add: calculateChallengeScore_def Let_def)
qed

theorem calculateChallengeScore_range_witness:
  "(0::real) \<le> 5 \<and> (0::real) < 1 \<and> (0::real) \<le> 9
     \<and> 0 \<le> calculateChallengeScore 5 1 False True 9
     \<and> calculateChallengeScore 5 1 False True 9 \<le> 100"
  using calculateChallengeScore_range [of 5 1 9 False True]
  by simp

section \<open>Scores and the correctness of an answer\<close>




section \<open>XP earned\<close>

lemma xp_chain:
  assumes "0 \<le> s" and "s \<le> 100" and "0 \<le> b" and "b \<le> 400"
  shows "js_times (Math_round_js (js_over (js_times (Num b) (js_div s 100)) (Num 5))) (Num 5)
           = Num (Math_round (dbl (dbl (b * dbl (s / 100)) / 5)) * 5)"
    and "\<exists>k::int. 0 \<le> k \<and> Math_round (dbl (dbl (b * dbl (s / 100)) / 5)) = of_int k"
proof -
  define t1 where "t1 = dbl (s / 100)"
  have "0 \<le> s / 100" and "s / 100 \<le> 2 powi 0" using assms(1,2) by simp_all
  then have f1: "fl (s / 100) = Num t1" and t1: "0 \<le> t1" "t1 \<le> 1"
    using fl_bounded [of "s / 100" 0] by (simp_all add: t1_def)
  define t2 where "t2 = dbl (b * t1)"
  have "b * t1 \<le> 400 * 1" using assms(3,4) t1 by (intro mult_mono) simp_all
  then have "0 \<le> b * t1" and "b * t1 \<le> 2 powi 9" using assms(3) t1 by simp_all
  then have f2: "fl (b * t1) = Num t2" and t2: "0 \<le> t2" "t2 \<le> 512"
    using fl_bounded [of "b * t1" 9] by (simp_all add: t2_def)
  define t3 where "t3 = dbl (t2 / 5)"
  have "0 \<le> t2 / 5" and "t2 / 5 \<le> 2 powi 7" using t2 by simp_all
  then have f3: "fl (t2 / 5) = Num t3" and t3: "0 \<le> t3" "t3 \<le> 128"
    using fl_bounded [of "t2 / 5" 7] by (simp_all add: t3_def)
  define k where "k = \<lfloor>t3 + 1 / 2\<rfloor>"
  have k0: "0 \<le> k" using t3 by (simp add: k_def)
  have "t3 + 1 / 2 < 129" using t3 by simp
  then have k1: "k < 129" by (simp add: k_def floor_less_iff)
  have r: "Math_round t3 = of_int k" by (simp add: Math_round_def k_def)
  have "\<bar>k * 5\<bar> < 2 ^ 53" using k0 k1 by simp
  then have d: "dbl (of_int (k * 5)) = of_int (k * 5)" by (rule dbl_of_int)
  have "(0::real) \<le> of_int (k * 5)" using k0 by simp
  moreover have "(of_int (k * 5) :: real) \<le> 2 powi 10"
  proof -
    have "k * 5 \<le> 1024" using k1 by simp
    then have "(of_int (k * 5) :: real) \<le> of_int 1024" by (simp only: of_int_le_iff)
    then show ?thesis by simp
  qed
  ultimately have "fl (of_int (k * 5)) = Num (dbl (of_int (k * 5)))"
    by (rule fl_bounded) simp_all
  then have f4: "fl (of_int k * 5) = Num (of_int k * 5)" using d by simp
  show "js_times (Math_round_js (js_over (js_times (Num b) (js_div s 100)) (Num 5))) (Num 5)
           = Num (Math_round (dbl (dbl (b * dbl (s / 100)) / 5)) * 5)"
    using f1 f2 f3 f4 r by (simp add: js_div_def t1_def t2_def t3_def)
  show "\<exists>k::int. 0 \<le> k \<and> Math_round (dbl (dbl (b * dbl (s / 100)) / 5)) = of_int k"
    using k0 r by (auto simp add: t1_def t2_def t3_def)
qed

lemma calculateXpEarned_tier:
  "calculateXpEarned (difficulty_string d) s
     = js_times
         (Math_round_js
            (js_over
               (js_times
                  (Num (case d of beginner \<Rightarrow> 50 | intermediate \<Rightarrow> 100
                        | advanced \<Rightarrow> 200 | expert \<Rightarrow> 400))
                  (js_div s 100))
               (Num 5)))
         (Num 5)"
  by (cases d) (simp_all add: calculateXpEarned_def baseXp_def)

text \<open>
  Claim C7 gives the XP earned as \<open>round((base * score/100) / 5) * 5\<close> for every score
  between 0 and 100. The function computes the quotients and the product in doubles: for
  the intermediate tier and the score 57.5 the quotient by 5 is 11.499999999999998 and
  not 11.5, so the result is 55, where the formula of the claim gives 60.
\<close>

theorem calculateXpEarned_rounds_score:
  "(0::real) \<le> 57.5 \<and> (57.5::real) \<le> 100
   \<and> calculateXpEarned ''intermediate'' 57.5 = Num 55
   \<and> Math_round ((100 * (57.5 / 100)) / 5) * 5 = (60::real)"
proof -
  have "calculateXpEarned (difficulty_string intermediate) 57.5
          = Num (Math_round (dbl (dbl (100 * dbl (57.5 / 100)) / 5)) * 5)"
    unfolding calculateXpEarned_tier by (simp add: xp_chain(1))
  then have "calculateXpEarned ''intermediate'' 57.5 = Num 55"
    by (simp add: dbl_binades round_half_even_def Math_round_def)
  then show ?thesis by (simp add: Math_round_def)
qed

text \<open>
  Claim C7, amended. For each of the four difficulty tiers and a score between 0 and 100,
  the XP earned is \<open>round((base * (score/100)) / 5) * 5\<close> with base 50, 100, 200 and 400,
  where the quotient by 100, the product and the quotient by 5 are each rounded to the
  nearest double; it is a non-negative multiple of 5. The beginner tier with score 60, the
  witness, earns 30.
\<close>

theorem calculateXpEarned_double_formula:
  assumes "0 \<le> s" and "s \<le> 100"
  shows "calculateXpEarned (difficulty_string d) s =
           Num (Math_round
                  (dbl (dbl ((case d of beginner \<Rightarrow> 50 | intermediate \<Rightarrow> 100
                               | advanced \<Rightarrow> 200 | expert \<Rightarrow> 400) * dbl (s / 100)) / 5)) * 5)
       \<and> (\<exists>k::int. 0 \<le> k \<and> calculateXpEarned (difficulty_string d) s = Num (of_int k * 5))"
proof -
  let ?b = "(case d of beginner \<Rightarrow> 50 | intermediate \<Rightarrow> 100 | advanced \<Rightarrow> 200 | expert \<Rightarrow> 400) :: real"
  have b: "0 \<le> ?b" "?b \<le> 400" by (cases d; simp)+
  have eq: "calculateXpEarned (difficulty_string d) s
              = Num (Math_round (dbl (dbl (?b * dbl (s / 100)) / 5)) * 5)"
    unfolding calculateXpEarned_tier using assms b by (rule xp_chain(1))
  obtain k :: int where "0 \<le> k" and "Math_round (dbl (dbl (?b * dbl (s / 100)) / 5)) = of_int k"
    using xp_chain(2) [OF assms b] by blast
  with eq show ?thesis by auto
qed

theorem calculateXpEarned_double_formula_witness:
  "(0::real) \<le> 60 \<and> (60::real) \<le> 100 \<and> calculateXpEarned ''beginner'' 60 = Num 30"
  using calculateXpEarned_double_formula [of 60 beginner]
  by (simp add: dbl_binades round_half_even_def Math_round_def)

text \<open>
  A difficulty that is neither one of the four tiers nor a property name inherited from
  \<open>Object.prototype\<close> is scored as the beginner tier is.
\<close>

lemma calculateXpEarned_default:
  assumes "difficulty \<notin> set [''beginner'', ''intermediate'', ''advanced'', ''expert'']"
    and "difficulty \<notin> set object_prototype_keys"
  shows "calculateXpEarned difficulty s = calculateXpEarned ''beginner'' s"
  using assms by (simp add: calculateXpEarned_def baseXp_def)

text \<open>
  Claim C10 says that every difficulty outside the four tiers is scored with the beginner
  base of 50. For the strings \<open>toString\<close> and \<open>constructor\<close> the lookup in the table
  finds the inherited member, which is truthy, so the default is not taken and the product
  is \<open>NaN\<close>; with the beginner base the first call would give 30.
\<close>

theorem calculateXpEarned_inherited_key:
  "calculateXpEarned ''toString'' 60 = NaN \<and> calculateXpEarned ''constructor'' 100 = NaN"
  by (simp add: calculateXpEarned_def baseXp_def object_prototype_keys_def)

section \<open>Player progress\<close>

text \<open>
  Claim C2 says that the update keeps \<open>0 \<le> xp < xpToNextLevel\<close> by levelling up as
  often as needed. The update levels up once at most: the mock player (level 5, 450 of 550
  XP) awarded 2000 XP ends at level 6 with 1900 XP against a threshold of 825.
\<close>

theorem updatePlayerProgress_breaks_invariant:
  "0 \<le> player_xp mockPlayer \<and> player_xp mockPlayer < player_xpToNextLevel mockPlayer
   \<and> (0::real) \<le> 2000
   \<and> map_option player_level (player (updatePlayerProgress 2000 exampleState)) = Some 6
   \<and> map_option player_xp (player (updatePlayerProgress 2000 exampleState)) = Some 1900
   \<and> map_option player_xpToNextLevel (player (updatePlayerProgress 2000 exampleState)) = Some 825
   \<and> \<not> (1900::real) < 825"
  by (simp add: updatePlayerProgress_def exampleState_def mockPlayer_def Math_round_def Let_def)

text \<open>
  Claim C2, amended. From a player with \<open>0 \<le> xp < xpToNextLevel\<close> and a non-negative
  award, the update either adds the award to \<open>xp\<close> (when the sum stays below the
  threshold) or levels up exactly once: the level grows by one, the threshold is subtracted
  from the sum, and the new threshold is \<open>round(xpToNextLevel * 1.5)\<close>. The new state
  satisfies \<open>0 \<le> xp < xpToNextLevel\<close> whenever the sum is below the old threshold plus
  the new one. The witness is the example of the specification: level 1 with 900 of 1000 XP
  and an award of 150 gives level 2 with 50 of 1500 XP.
\<close>

theorem updatePlayerProgress_single_level_up:
  assumes "player st = Some p"
    and "0 \<le> player_xp p" and "player_xp p < player_xpToNextLevel p"
    and "0 \<le> xpEarned"
  shows "\<exists>p'. player (updatePlayerProgress xpEarned st) = Some p'
     \<and> (if player_xp p + xpEarned < player_xpToNextLevel p
         then p' = p\<lparr> player_xp := player_xp p + xpEarned \<rparr>
         else p' = p\<lparr> player_level := player_level p + 1,
                       player_xp := player_xp p + xpEarned - player_xpToNextLevel p,
                       player_xpToNextLevel := Math_round (player_xpToNextLevel p * 1.5) \<rparr>)
     \<and> (player_xp p + xpEarned
           < player_xpToNextLevel p + Math_round (player_xpToNextLevel p * 1.5)
         \<longrightarrow> 0 \<le> player_xp p' \<and> player_xp p' < player_xpToNextLevel p')"
proof (cases "player_xp p + xpEarned < player_xpToNextLevel p")
  case True
  with assms show ?thesis
    by (simp add: updatePlayerProgress_def Let_def)
next
  case False
  with assms show ?thesis
    by (simp add: updatePlayerProgress_def Let_def)
qed

theorem updatePlayerProgress_single_level_up_witness:
  "player (exampleState\<lparr> player := Some examplePlayer \<rparr>) = Some examplePlayer
   \<and> 0 \<le> player_xp examplePlayer
   \<and> player_xp examplePlayer < player_xpToNextLevel examplePlayer
   \<and> (0::real) \<le> 150
   \<and> player_xp examplePlayer + 150
       < player_xpToNextLevel examplePlayer + Math_round (player_xpToNextLevel examplePlayer * 1.5)
   \<and> player (updatePlayerProgress 150 (exampleState\<lparr> player := Some examplePlayer \<rparr>))
       = Some (examplePlayer\<lparr> player_level := 2, player_xp := 50,
                               player_xpToNextLevel := 1500 \<rparr>)"
proof -
  have ex: "player_level examplePlayer = 1" "player_xp examplePlayer = 900"
    "player_xpToNextLevel examplePlayer = 1000"
    by (simp_all add: examplePlayer_def)
  have r: "Math_round 1500 = 1500" by (simp add: Math_round_def)
  show ?thesis
    using updatePlayerProgress_single_level_up
      [of "exampleState\<lparr> player := Some examplePlayer \<rparr>" examplePlayer 150]
    by (auto simp add: ex r)
qed

text \<open>
  Claim C8 says that a negative award is rejected and the player left unchanged. The
  update has no check on the sign: an award of -50 takes the mock player from 450 XP to
  400 XP.
\<close>

theorem updatePlayerProgress_accepts_negative:
  "(- 50 :: real) < 0
   \<and> map_option player_xp (player exampleState) = Some 450
   \<and> map_option player_xp (player (updatePlayerProgress (- 50) exampleState)) = Some 400
   \<and> updatePlayerProgress (- 50) exampleState \<noteq> exampleState"
proof -
  have a: "map_option player_xp (player exampleState) = Some 450"
    by (simp add: exampleState_def mockPlayer_def)
  have b: "map_option player_xp (player (updatePlayerProgress (- 50) exampleState)) = Some 400"
    by (simp add: updatePlayerProgress_def exampleState_def mockPlayer_def Let_def)
  have "updatePlayerProgress (- 50) exampleState \<noteq> exampleState"
  proof
    assume "updatePlayerProgress (- 50) exampleState = (exampleState :: unit GameState)"
    then have "map_option player_xp (player (updatePlayerProgress (- 50) exampleState))
                 = map_option player_xp (player (exampleState :: unit GameState))"
      by (rule arg_cong)
    then show False unfolding a b by simp
  qed
  with a b show ?thesis by simp
qed

text \<open>
  Claim C8, amended. For a negative award and a player with \<open>xp < xpToNextLevel\<close>, the
  update returns no error: it adds the award to \<open>xp\<close>, which lowers it, and changes
  nothing else.
\<close>

theorem updatePlayerProgress_negative_xp:
  assumes "xpEarned < 0" and "player st = Some p"
    and "player_xp p < player_xpToNextLevel p"
  shows "updatePlayerProgress xpEarned st
           = st\<lparr> player := Some (p\<lparr> player_xp := player_xp p + xpEarned \<rparr>) \<rparr>
       \<and> updatePlayerProgress xpEarned st \<noteq> st"
proof -
  have a: "updatePlayerProgress xpEarned st
           = st\<lparr> player := Some (p\<lparr> player_xp := player_xp p + xpEarned \<rparr>) \<rparr>"
    using assms by (simp add: updatePlayerProgress_def Let_def)
  have "player_xp (p\<lparr> player_xp := player_xp p + xpEarned \<rparr>) \<noteq> player_xp p"
    using assms(1) by simp
  then have "p\<lparr> player_xp := player_xp p + xpEarned \<rparr> \<noteq> p" by metis
  then have "player (st\<lparr> player := Some (p\<lparr> player_xp := player_xp p + xpEarned \<rparr>) \<rparr>) \<noteq> player st"
    using assms(2) by simp
  then have "st\<lparr> player := Some (p\<lparr> player_xp := player_xp p + xpEarned \<rparr>) \<rparr> \<noteq> st" by metis
  with a show ?thesis by simp
qed

theorem updatePlayerProgress_negative_xp_witness:
  "(- 50 :: real) < 0 \<and> player exampleState = Some mockPlayer
   \<and> player_xp mockPlayer < player_xpToNextLevel mockPlayer
   \<and> updatePlayerProgress (- 50) exampleState
        = exampleState\<lparr> player := Some (mockPlayer\<lparr> player_xp := 400 \<rparr>) \<rparr>"
proof -
  have ex: "player exampleState = Some mockPlayer" "player_xp mockPlayer = 450"
    "player_xpToNextLevel mockPlayer = 550"
    by (simp_all add: exampleState_def mockPlayer_def)
  show ?thesis
    using updatePlayerProgress_negative_xp [of "- 50" exampleState mockPlayer]
    by (simp add: ex)
qed

section \<open>Level completion\<close>

lemma score_or_zero_Some: "score_or_zero (Some v) = v"
  by (simp add: score_or_zero_def)

lemma completeLevel_idem: "completeLevel s (completeLevel s l) = completeLevel s l"
  by (simp add: completeLevel_def score_or_zero_Some)

lemma level_id_completeLevel: "level_id (completeLevel s l) = level_id l"
  by (simp add: completeLevel_def)

lemma level_completed_completeLevel: "level_completed (completeLevel s l)"
  by (simp add: completeLevel_def)

lemma updateLevels_idem:
  "updateLevels lid s (updateLevels lid s ls) = updateLevels lid s ls"
  by (induction ls) (simp_all add: updateLevels_def level_id_completeLevel completeLevel_idem)

lemma completed_updateLevels:
  "map level_completed (updateLevels lid s ls)
     = map (\<lambda>l. level_completed l \<or> level_id l = lid) ls"
  by (induction ls) (auto simp add: updateLevels_def level_completed_completeLevel)

lemma cluster_levels_updateCluster:
  "cluster_levels (updateCluster lid s c) = updateLevels lid s (cluster_levels c)"
  by (simp add: updateCluster_def Let_def)

lemma cluster_progress_updateCluster:
  "cluster_progress (updateCluster lid s c) = clusterProgress (cluster_levels (updateCluster lid s c))"
  by (simp add: updateCluster_def Let_def)

lemma updateCluster_idem:
  "updateCluster lid s (updateCluster lid s c) = updateCluster lid s c"
  by (simp add: updateCluster_def Let_def updateLevels_idem)

lemma levelClusters_markLevelCompleted:
  "levelClusters (markLevelCompleted lid s st) = map (updateCluster lid s) (levelClusters st)"
  by (simp add: markLevelCompleted_def Let_def split: option.split)

lemma currentLevel_markLevelCompleted:
  "currentLevel (markLevelCompleted lid s st)
     = map_option (\<lambda>cur. if level_id cur = lid then completeLevel s cur else cur) (currentLevel st)"
  by (simp add: markLevelCompleted_def Let_def split: option.split)

lemma markLevelCompleted_idem:
  "markLevelCompleted lid s (markLevelCompleted lid s st) = markLevelCompleted lid s st"
proof -
  have "map (updateCluster lid s) (map (updateCluster lid s) (levelClusters st))
          = map (updateCluster lid s) (levelClusters st)"
    by (simp add: updateCluster_idem)
  then show ?thesis
    by (cases "currentLevel st")
       (simp_all add: markLevelCompleted_def Let_def level_id_completeLevel completeLevel_idem)
qed

text \<open>
  Claim C5 says that the new \<open>completed\<close> flag is the old one or \<open>score \<ge> 70\<close>.
  \<open>markLevelCompleted\<close> does not compare the score with any threshold: marking level 2
  of the example career, which is not completed, with a score of 0 sets its flag.
\<close>

theorem markLevelCompleted_below_threshold:
  "\<not> (0::real) \<ge> 70
   \<and> map (\<lambda>c. map level_completed (cluster_levels c)) (levelClusters exampleState)
        = [[True, False]]
   \<and> map (\<lambda>c. map level_completed (cluster_levels c))
          (levelClusters (markLevelCompleted 2 0 exampleState)) = [[True, True]]"
  by (simp add: markLevelCompleted_def exampleState_def exampleCluster_def exampleLevel_def
      updateCluster_def updateLevels_def completeLevel_def Let_def)

text \<open>
  Claim C5, amended. For every state, level id and score, the new \<open>completed\<close> flag of
  a level is the old flag or the fact that the level is the one marked, whatever the score:
  in every cluster and for the current level. The flag is therefore sticky once true. The
  threshold of 70 only decides the navigation to the results page
  (\<open>navigatesToResults\<close>).
\<close>

theorem markLevelCompleted_completed:
  "map (\<lambda>c. map level_completed (cluster_levels c)) (levelClusters (markLevelCompleted levelId s st))
     = map (\<lambda>c. map (\<lambda>l. level_completed l \<or> level_id l = levelId) (cluster_levels c))
         (levelClusters st)
   \<and> map_option level_completed (currentLevel (markLevelCompleted levelId s st))
     = map_option (\<lambda>l. level_completed l \<or> level_id l = levelId) (currentLevel st)"
proof
  show "map (\<lambda>c. map level_completed (cluster_levels c)) (levelClusters (markLevelCompleted levelId s st))
     = map (\<lambda>c. map (\<lambda>l. level_completed l \<or> level_id l = levelId) (cluster_levels c))
         (levelClusters st)"
    by (simp add: levelClusters_markLevelCompleted cluster_levels_updateCluster
        completed_updateLevels comp_def)
  show "map_option level_completed (currentLevel (markLevelCompleted levelId s st))
     = map_option (\<lambda>l. level_completed l \<or> level_id l = levelId) (currentLevel st)"
    by (cases "currentLevel st")
       (auto simp add: currentLevel_markLevelCompleted level_completed_completeLevel)
qed

section \<open>Cluster progress\<close>

lemma clusterProgress_formula:
  assumes "ls \<noteq> []"
  shows "clusterProgress ls
      = Math_round (dbl (dbl (real (length (filter level_completed ls)) / real (length ls)) * 100))"
  by (simp add: clusterProgress_def Let_def Math_round_def dbl_zero)

lemma clusterProgress_mset:
  assumes "mset ls = mset ls'"
  shows "clusterProgress ls = clusterProgress ls'"
proof -
  have "length ls = length ls'" using assms by (rule mset_eq_length)
  moreover have "mset (filter level_completed ls) = mset (filter level_completed ls')"
    using assms by (metis mset_filter)
  then have "length (filter level_completed ls) = length (filter level_completed ls')"
    by (rule mset_eq_length)
  ultimately show ?thesis by (simp add: clusterProgress_def)
qed

lemma length_updateLevels: "length (updateLevels lid s ls) = length ls"
  by (simp add: updateLevels_def)

lemma count_completed_updateLevels:
  "length (filter level_completed (updateLevels lid s ls))
     = length (filter (\<lambda>l. level_completed l \<or> level_id l = lid) ls)"
proof -
  have "length (filter level_completed xs) = length (filter id (map level_completed xs))"
    for xs :: "'a Level list"
    by (simp add: filter_map comp_def)
  then have "length (filter level_completed (updateLevels lid s ls))
               = length (filter id (map (\<lambda>l. level_completed l \<or> level_id l = lid) ls))"
    by (simp only: completed_updateLevels)
  then show ?thesis by (simp add: filter_map comp_def)
qed

text \<open>
  Claim C9 gives the recomputed progress as \<open>round(100 * completed / total)\<close>. The
  function computes \<open>(completed / total) * 100\<close> in doubles: for 23 completed levels of 40
  the product is 57.49999999999999 and not 57.5, so the progress is 57, where the formula
  of the claim gives 58.
\<close>

theorem clusterProgress_rounds_quotient:
  "length (filter level_completed
      (replicate 23 (exampleLevel 1 True None) @ replicate 17 (exampleLevel 2 False None))) = 23
   \<and> length (replicate 23 (exampleLevel 1 True None) @ replicate 17 (exampleLevel 2 False None))
       = 40
   \<and> clusterProgress
       (replicate 23 (exampleLevel 1 True None) @ replicate 17 (exampleLevel 2 False None)) = 57
   \<and> Math_round (100 * 23 / 40) = (58::real)"
proof -
  let ?ls = "replicate 23 (exampleLevel 1 True None) @ replicate 17 (exampleLevel 2 False None)"
  have c: "level_completed (exampleLevel i b sc) = b" for i b sc
    by (simp add: exampleLevel_def)
  have n: "length (filter level_completed ?ls) = 23"
    by (simp add: c filter_replicate)
  have m: "length ?ls = 40" by simp
  have "clusterProgress ?ls = Math_round (dbl (dbl (real 23 / real 40) * 100))"
    by (simp only: clusterProgress_def Let_def n m) simp
  also have "\<dots> = 57"
    by (simp add: dbl_binades round_half_even_def Math_round_def)
  finally have p: "clusterProgress ?ls = 57" .
  have "Math_round (100 * 23 / 40) = (58::real)" by (simp add: Math_round_def)
  with n m p show ?thesis by (simp only: simp_thms)
qed

text \<open>
  Claim C9, amended. For a list of level records that is not empty, the recomputed progress
  is \<open>round((completed / total) * 100)\<close> with the quotient and the product each rounded
  to the nearest double; it is the same for every permutation of the records; the progress
  that \<open>markLevelCompleted\<close> stores in a cluster is this value for the levels the cluster
  had, with the marked level counted as completed; and marking the same level with the same
  score a second time changes nothing in the state.
\<close>

theorem clusterProgress_pure_reduction:
  "(ls \<noteq> [] \<longrightarrow> clusterProgress ls
      = Math_round (dbl (dbl (real (length (filter level_completed ls)) / real (length ls)) * 100)))
   \<and> (mset ls = mset ls' \<longrightarrow> clusterProgress ls = clusterProgress ls')
   \<and> map cluster_progress (levelClusters (markLevelCompleted levelId s st))
       = map (\<lambda>c. let k = length (filter (\<lambda>l. level_completed l \<or> level_id l = levelId)
                                   (cluster_levels c))
                  in if 0 < k
                     then Math_round (dbl (dbl (real k / real (length (cluster_levels c))) * 100))
                     else 0)
           (levelClusters st)
   \<and> markLevelCompleted levelId s (markLevelCompleted levelId s st)
       = markLevelCompleted levelId s st"
proof (intro conjI impI)
  assume "ls \<noteq> []"
  then show "clusterProgress ls
      = Math_round (dbl (dbl (real (length (filter level_completed ls)) / real (length ls)) * 100))"
    by (rule clusterProgress_formula)
next
  assume "mset ls = mset ls'"
  then show "clusterProgress ls = clusterProgress ls'"
    by (rule clusterProgress_mset)
next
  show "map cluster_progress (levelClusters (markLevelCompleted levelId s st))
       = map (\<lambda>c. let k = length (filter (\<lambda>l. level_completed l \<or> level_id l = levelId)
                                   (cluster_levels c))
                  in if 0 < k
                     then Math_round (dbl (dbl (real k / real (length (cluster_levels c))) * 100))
                     else 0)
           (levelClusters st)"
    by (simp add: levelClusters_markLevelCompleted cluster_progress_updateCluster
        cluster_levels_updateCluster clusterProgress_def count_completed_updateLevels
        length_updateLevels Let_def comp_def)
next
  show "markLevelCompleted levelId s (markLevelCompleted levelId s st)
       = markLevelCompleted levelId s st"
    by (rule markLevelCompleted_idem)
qed

theorem clusterProgress_pure_reduction_witness:
  "[exampleLevel 1 True (Some 95), exampleLevel 2 False None] \<noteq> []
   \<and> mset [exampleLevel 1 True (Some 95), exampleLevel 2 False None]
       = mset [exampleLevel 2 False None, exampleLevel 1 True (Some 95)]
   \<and> clusterProgress [exampleLevel 1 True (Some 95), exampleLevel 2 False None] = 50
   \<and> clusterProgress [exampleLevel 1 True (Some 95), exampleLevel 2 False None]
       = clusterProgress [exampleLevel 2 False None, exampleLevel 1 True (Some 95)]
   \<and> map cluster_progress (levelClusters (markLevelCompleted 2 80 exampleState)) = [100]"
proof -
  have c: "level_completed (exampleLevel i b sc) = b" "level_id (exampleLevel i b sc) = i"
    for i b sc
    by (simp_all add: exampleLevel_def)
  have st: "levelClusters exampleState = [exampleCluster]"
    "cluster_levels exampleCluster = [exampleLevel 1 True (Some 95), exampleLevel 2 False None]"
    by (simp_all add: exampleState_def exampleCluster_def)
  show ?thesis
    using clusterProgress_pure_reduction
      [of "[exampleLevel 1 True (Some 95), exampleLevel 2 False None]"
          "[exampleLevel 2 False None, exampleLevel 1 True (Some 95)]" 2 80 exampleState]
    by (simp add: c st dbl_binades round_half_even_def Math_round_def)
qed

section \<open>The leaderboard\<close>

lemma map_sort_key: "map f (sort_key f xs) = sort (map f xs)"
  by (rule properties_for_sort [symmetric]) simp_all

lemma rankedLeaderboard_global:
  "fst (rankedLeaderboard mock pl r global region searchQuery)
     = sort_key entry_rank
         (filter (\<lambda>e. (region = ''all'' \<or> entry_region e = Some region)
                  \<and> (searchQuery = [] \<or>
                      string_includes (toLowerCase (entry_playerName e)) (toLowerCase searchQuery)))
            (case pl of None \<Rightarrow> mock | Some p \<Rightarrow> mock @ [currentPlayerEntry p r]))"
proof -
  let ?es = "case pl of None \<Rightarrow> mock | Some p \<Rightarrow> mock @ [currentPlayerEntry p r]"
  have "fst (rankedLeaderboard mock pl r global region searchQuery)
     = sort_key entry_rank
         ((if searchQuery \<noteq> []
           then filter (\<lambda>e. string_includes (toLowerCase (entry_playerName e))
                                   (toLowerCase searchQuery))
           else (\<lambda>es. es))
            ((if region \<noteq> ''all'' then filter (\<lambda>e. entry_region e = Some region)
              else (\<lambda>es. es)) ?es))"
    by (cases pl) (simp_all add: rankedLeaderboard_def Let_def)
  also have "\<dots> = sort_key entry_rank
         (filter (\<lambda>e. (region = ''all'' \<or> entry_region e = Some region)
                  \<and> (searchQuery = [] \<or>
                      string_includes (toLowerCase (entry_playerName e)) (toLowerCase searchQuery)))
            ?es)"
    by (simp add: conj_commute)
  finally show ?thesis .
qed

text \<open>
  Claim C4 says that the survivors of a filter are ranked again from 1. The page sorts the
  filtered entries by the rank they already carry and assigns no rank: the twenty mock
  entries filtered to the region Asia keep the ranks 3, 7, 10, 13, 16 and 19.
\<close>

theorem leaderboard_ranks_not_recomputed:
  "length mockLeaderboard = 20
   \<and> map entry_rank (fst (loadLeaderboardData None 0 global ''Asia'' []))
       = [3, 7, 10, 13, 16, 19]"
  by (simp add: loadLeaderboardData_def rankedLeaderboard_global mockLeaderboard_def entry_def)

text \<open>
  Claim C4, amended. For every list of entries and every filter of the global leaderboard
  (region equality, a case-insensitive substring of the player name, or both), the result
  holds exactly the entries that pass both filters, each with the rank it had before
  filtering, in ascending order of that rank.
\<close>

theorem rankedLeaderboard_stored_ranks:
  "map entry_rank (fst (rankedLeaderboard mock pl r global region searchQuery))
     = sort (map entry_rank
         (filter (\<lambda>e. (region = ''all'' \<or> entry_region e = Some region)
                  \<and> (searchQuery = [] \<or>
                      string_includes (toLowerCase (entry_playerName e)) (toLowerCase searchQuery)))
            (case pl of None \<Rightarrow> mock | Some p \<Rightarrow> mock @ [currentPlayerEntry p r])))
   \<and> mset (fst (rankedLeaderboard mock pl r global region searchQuery))
     = mset (filter (\<lambda>e. (region = ''all'' \<or> entry_region e = Some region)
                  \<and> (searchQuery = [] \<or>
                      string_includes (toLowerCase (entry_playerName e)) (toLowerCase searchQuery)))
            (case pl of None \<Rightarrow> mock | Some p \<Rightarrow> mock @ [currentPlayerEntry p r]))"
  by (simp only: rankedLeaderboard_global map_sort_key mset_sort simp_thms)

end
